theory Spec2Isabelle
  imports Complex_Main "HOL-Library.Sublist" "HOL-Library.Char_ord" "HOL-Library.List_Lexorder"
begin

section \<open>Python values and strings\<close>

text \<open>
  The generator (\<^verbatim>\<open>src/generator.py\<close>, function \<^verbatim>\<open>generate_kmz_file\<close>) works on pandas
  tables whose cells are loosely typed. A Python \<^verbatim>\<open>str\<close> is modelled as a \<open>string\<close> whose
  characters are the code points below 256; a float is a rational or NaN (infinities are
  not modelled: the program never computes with coordinates, it only passes them through
  and compares sequence numbers); a cell is \<^verbatim>\<open>None\<close>, a number or a string.
\<close>

datatype pyfloat = Fin rat | FNaN

datatype cell = PyNone | Num pyfloat | Str string

text \<open>\<^verbatim>\<open>str.isspace\<close> on the code points below 256, the set \<^verbatim>\<open>str.strip()\<close> removes.\<close>

definition is_space :: "char \<Rightarrow> bool" where
  "is_space c = (c \<in> {CHR 0x09, CHR 0x0A, CHR 0x0B, CHR 0x0C, CHR 0x0D,
                       CHR 0x1C, CHR 0x1D, CHR 0x1E, CHR 0x1F, CHR 0x20, CHR 0x85, CHR 0xA0})"

definition strip :: "string \<Rightarrow> string" where
  "strip s = rev (dropWhile is_space (rev (dropWhile is_space s)))"

text \<open>\<^verbatim>\<open>s.lstrip("#")\<close>: every leading occurrence of the character goes.\<close>

definition lstrip_char :: "char \<Rightarrow> string \<Rightarrow> string" where
  "lstrip_char ch s = dropWhile (\<lambda>c. c = ch) s"

text \<open>\<^verbatim>\<open>str.lower()\<close>, which is character-wise on the code points below 256.\<close>

definition lower_char :: "char \<Rightarrow> char" where
  "lower_char c =
     (let n = (of_char c :: nat)
      in if (65 \<le> n \<and> n \<le> 90) \<or> (192 \<le> n \<and> n \<le> 222 \<and> n \<noteq> 215)
         then char_of (n + 32) else c)"

definition lower :: "string \<Rightarrow> string" where
  "lower s = map lower_char s"

text \<open>\<^verbatim>\<open>sub in s\<close> on strings.\<close>

fun contains :: "string \<Rightarrow> string \<Rightarrow> bool" where
  "contains sub [] = (sub = [])"
| "contains sub (c # cs) = (prefix sub (c # cs) \<or> contains sub cs)"

subsection \<open>\<^verbatim>\<open>int(s, 16)\<close>\<close>

text \<open>
  CPython's \<^verbatim>\<open>int(s, 16)\<close>: surrounding whitespace is ignored, one sign is allowed, then
  an optional \<^verbatim>\<open>0x\<close> prefix, then hexadecimal digits, where single underscores may stand
  between digits (and once after the prefix). \<open>None\<close> is \<^verbatim>\<open>ValueError\<close>.
\<close>

definition hex_digit :: "char \<Rightarrow> nat option" where
  "hex_digit c =
     (let n = (of_char c :: nat)
      in if 48 \<le> n \<and> n \<le> 57 then Some (n - 48)
         else if 97 \<le> n \<and> n \<le> 102 then Some (n - 87)
         else if 65 \<le> n \<and> n \<le> 70 then Some (n - 55)
         else None)"

fun hex_run :: "nat \<Rightarrow> string \<Rightarrow> nat option" where
  "hex_run acc [] = Some acc"
| "hex_run acc [c] = (case hex_digit c of None \<Rightarrow> None | Some v \<Rightarrow> Some (16 * acc + v))"
| "hex_run acc (c # d # ds) =
     (if c = CHR ''_''
      then (case hex_digit d of None \<Rightarrow> None | Some v \<Rightarrow> hex_run (16 * acc + v) ds)
      else (case hex_digit c of None \<Rightarrow> None | Some v \<Rightarrow> hex_run (16 * acc + v) (d # ds)))"

definition hex_start :: "string \<Rightarrow> nat option" where
  "hex_start s =
     (case s of
        [] \<Rightarrow> None
      | c # cs \<Rightarrow> (case hex_digit c of None \<Rightarrow> None | Some v \<Rightarrow> hex_run v cs))"

definition hex_body :: "string \<Rightarrow> nat option" where
  "hex_body u =
     (case u of
        a # b # rest \<Rightarrow>
          if a = CHR ''0'' \<and> (b = CHR ''x'' \<or> b = CHR ''X'')
          then (if rest = [] then None else hex_run 0 rest)
          else hex_start u
      | _ \<Rightarrow> hex_start u)"

definition py_int16 :: "string \<Rightarrow> int option" where
  "py_int16 s =
     (case strip s of
        [] \<Rightarrow> None
      | c # cs \<Rightarrow>
          if c = CHR ''+'' then map_option int (hex_body cs)
          else if c = CHR ''-'' then map_option (\<lambda>n. - int n) (hex_body cs)
          else map_option int (hex_body (c # cs)))"

subsection \<open>Colours of the KML library\<close>

text \<open>
  A KML colour is the text \<^verbatim>\<open>aabbggrr\<close>. \<^verbatim>\<open>simplekml.Color.rgb(r, g, b)\<close> is
  \<^verbatim>\<open>'%02x%02x%02x%02x' % (255, b, g, r)\<close>; the named colours are constants of that form.
\<close>

function hex_of :: "nat \<Rightarrow> string" where
  "hex_of n =
     (if n < 16 then [''0123456789abcdef'' ! n]
      else hex_of (n div 16) @ [''0123456789abcdef'' ! (n mod 16)])"
  by pat_completeness auto
termination
  by (relation "measure id") auto

declare hex_of.simps [simp del]

definition fmt_02x :: "int \<Rightarrow> string" where
  "fmt_02x n =
     (if n < 0 then CHR ''-'' # hex_of (nat (- n))
      else (let h = hex_of (nat n) in if length h < 2 then CHR ''0'' # h else h))"

definition Color_rgb :: "int \<Rightarrow> int \<Rightarrow> int \<Rightarrow> string" where
  "Color_rgb r g b = fmt_02x 255 @ fmt_02x b @ fmt_02x g @ fmt_02x r"

definition Color_blue :: string where "Color_blue = ''ffff0000''"
definition Color_red :: string where "Color_red = ''ff0000ff''"
definition Color_white :: string where "Color_white = ''ffffffff''"

section \<open>Attribute helpers\<close>

text \<open>
  \<^verbatim>\<open>gtfs_color_to_kml(color_str, default)\<close>: the slices \<^verbatim>\<open>[0:2]\<close>, \<^verbatim>\<open>[2:4]\<close>, \<^verbatim>\<open>[4:6]\<close> of a
  string of length 6 are \<open>take 2\<close>, \<open>take 2 \<circ> drop 2\<close> and \<open>drop 4\<close>.
\<close>

definition gtfs_color_to_kml :: "cell \<Rightarrow> string \<Rightarrow> string" where
  "gtfs_color_to_kml color_str dflt =
     (case color_str of
        Str s \<Rightarrow>
          (let t = lstrip_char (CHR ''#'') (strip s)
           in if length t \<noteq> 6 then dflt
              else (case py_int16 (take 2 t) of
                      None \<Rightarrow> dflt
                    | Some r \<Rightarrow>
                        (case py_int16 (take 2 (drop 2 t)) of
                           None \<Rightarrow> dflt
                         | Some g \<Rightarrow>
                             (case py_int16 (take 2 (drop 4 t)) of
                                None \<Rightarrow> dflt
                              | Some b \<Rightarrow> Color_rgb r g b))))
      | _ \<Rightarrow> dflt)"

text \<open>
  A pandas table: its column names and its rows. A row is a record of the columns the
  generator reads. Identifier columns are text; \<^verbatim>\<open>shape_id\<close> of a trip may be missing
  (\<open>None\<close> is NaN). The numeric columns of \<^verbatim>\<open>shapes.txt\<close> and \<^verbatim>\<open>direction_id\<close> hold floats
  (NaN where the file has no value); the stop coordinates and \<^verbatim>\<open>stop_sequence\<close> are cells,
  since the generator converts them itself and catches what fails.
\<close>

record 'r table =
  columns :: "string list"
  rows :: "'r list"

record route_row =
  route_id :: string
  route_short_name :: cell
  route_long_name :: cell
  route_color :: cell
  route_text_color :: cell

record trip_row =
  trip_id :: string
  trip_route_id :: string
  trip_shape_id :: "string option"
  direction_id :: pyfloat

record shape_row =
  shape_id :: string
  shape_pt_lat :: pyfloat
  shape_pt_lon :: pyfloat
  shape_pt_sequence :: pyfloat

record stop_row =
  stop_id :: string
  stop_name :: "string option"
  stop_lon :: cell
  stop_lat :: cell

record stop_time_row =
  st_trip_id :: string
  st_stop_id :: string
  stop_sequence :: cell

record feed =
  routes :: "route_row table"
  trips :: "trip_row table"
  shapes :: "shape_row table"
  stops :: "stop_row table"
  stop_times :: "stop_time_row table"

definition safe_col :: "'r table \<Rightarrow> string \<Rightarrow> bool" where
  "safe_col df col = (col \<in> set (columns df))"

text \<open>\<^verbatim>\<open>isinstance(val, str) and val.strip()\<close>, giving \<^verbatim>\<open>val.strip()\<close>.\<close>

definition nonblank_str :: "cell \<Rightarrow> string option" where
  "nonblank_str val =
     (case val of Str v \<Rightarrow> if strip v \<noteq> [] then Some (strip v) else None | _ \<Rightarrow> None)"

definition get_route_name :: "route_row table \<Rightarrow> route_row \<Rightarrow> string" where
  "get_route_name routes_df route_row =
     (case (if safe_col routes_df ''route_short_name''
            then nonblank_str (route_short_name route_row) else None) of
        Some n \<Rightarrow> n
      | None \<Rightarrow>
          (case (if safe_col routes_df ''route_long_name''
                 then nonblank_str (route_long_name route_row) else None) of
             Some n \<Rightarrow> n
           | None \<Rightarrow> route_id route_row))"

section \<open>The trip map and the representative trip\<close>

text \<open>
  \<^verbatim>\<open>trip_route_map\<close>: the trips with their direction column; when the table has no
  \<^verbatim>\<open>direction_id\<close> column, the column is created with 0 in every row.
\<close>

definition trip_route_map :: "trip_row table \<Rightarrow> trip_row list" where
  "trip_route_map trips_df =
     (if safe_col trips_df ''direction_id'' then rows trips_df
      else map (\<lambda>t. t\<lparr>direction_id := Fin 0\<rparr>) (rows trips_df))"

text \<open>\<^verbatim>\<open>Series.unique()\<close>: the values in order of first appearance.\<close>

fun unique :: "'a list \<Rightarrow> 'a list" where
  "unique [] = []"
| "unique (x # xs) = x # unique (filter (\<lambda>y. y \<noteq> x) xs)"

text \<open>
  \<^verbatim>\<open>groupby(key).size()\<close>: one entry per key, the keys in ascending order (pandas sorts
  the group keys), each with the number of its rows. \<^verbatim>\<open>sort_values(ascending=False)\<close> is
  pandas' descending sort: the series is reversed, sorted ascending, and the result
  reversed, so that equal values keep the order they had.
\<close>

definition groupby_size :: "string list \<Rightarrow> (string \<times> nat) list" where
  "groupby_size ks = map (\<lambda>k. (k, count_list ks k)) (sort (remdups ks))"

definition sort_values_desc :: "('k \<times> nat) list \<Rightarrow> ('k \<times> nat) list" where
  "sort_values_desc xs = rev (sort_key snd (rev xs))"

definition pick_representative_trip_id :: "stop_time_row list \<Rightarrow> string list \<Rightarrow> string option" where
  "pick_representative_trip_id stop_times_rows trip_ids =
     (let st = filter (\<lambda>r. st_trip_id r \<in> set trip_ids) stop_times_rows
      in if st = [] then None
         else (case sort_values_desc (groupby_size (map st_trip_id st)) of
                 [] \<Rightarrow> None
               | (t, n) # rest \<Rightarrow> Some t))"

section \<open>The document\<close>

datatype feature =
    LineString string "(pyfloat \<times> pyfloat) list" nat string
  | Point string "(pyfloat \<times> pyfloat) list" rat string

datatype node = Folder string "node list" | Feature feature

text \<open>
  What the model takes from the Python libraries as given: \<^verbatim>\<open>float(s)\<close> on a string
  (\<open>None\<close> is \<^verbatim>\<open>ValueError\<close>), \<^verbatim>\<open>pd.to_numeric(s, errors="coerce")\<close> on a string (NaN when it
  is not a number), and the KML text \<^verbatim>\<open>kml.kml(format=False)\<close> of a document.
\<close>

record pylib =
  float_of_str :: "string \<Rightarrow> pyfloat option"
  to_numeric_str :: "string \<Rightarrow> pyfloat"
  kml_render :: "node \<Rightarrow> string"

definition py_float :: "pylib \<Rightarrow> cell \<Rightarrow> pyfloat option" where
  "py_float lib c = (case c of Num x \<Rightarrow> Some x | Str s \<Rightarrow> float_of_str lib s | PyNone \<Rightarrow> None)"

definition to_numeric :: "pylib \<Rightarrow> cell \<Rightarrow> pyfloat" where
  "to_numeric lib c = (case c of Num x \<Rightarrow> x | Str s \<Rightarrow> to_numeric_str lib s | PyNone \<Rightarrow> FNaN)"

text \<open>\<^verbatim>\<open>int(x)\<close> of a float: truncation towards zero; NaN raises.\<close>

definition py_int :: "pyfloat \<Rightarrow> int option" where
  "py_int x = (case x of Fin q \<Rightarrow> Some (if 0 \<le> q then \<lfloor>q\<rfloor> else \<lceil>q\<rceil>) | FNaN \<Rightarrow> None)"

section \<open>Ordered stops of a trip\<close>

text \<open>
  A row of \<^verbatim>\<open>st.merge(stops, on="stop_id", how="left")\<close>: the stop-time columns (the
  sequence number already numeric) and the columns of the stop it matched. A stop-time
  row without a matching stop keeps one row, whose stop columns are NaN.
\<close>

record merged_row =
  m_trip_id :: string
  m_stop_id :: string
  m_stop_sequence :: rat
  m_stop_name :: "string option"
  m_stop_lon :: cell
  m_stop_lat :: cell

definition joined :: "rat \<times> stop_time_row \<Rightarrow> stop_row \<Rightarrow> merged_row" where
  "joined qr s =
     \<lparr>m_trip_id = st_trip_id (snd qr), m_stop_id = st_stop_id (snd qr),
      m_stop_sequence = fst qr, m_stop_name = stop_name s,
      m_stop_lon = stop_lon s, m_stop_lat = stop_lat s\<rparr>"

definition unmatched :: "rat \<times> stop_time_row \<Rightarrow> merged_row" where
  "unmatched qr =
     \<lparr>m_trip_id = st_trip_id (snd qr), m_stop_id = st_stop_id (snd qr),
      m_stop_sequence = fst qr, m_stop_name = None,
      m_stop_lon = Num FNaN, m_stop_lat = Num FNaN\<rparr>"

definition left_merge :: "(rat \<times> stop_time_row) list \<Rightarrow> stop_row list \<Rightarrow> merged_row list" where
  "left_merge st stops_rows =
     concat (map (\<lambda>qr. let ms = filter (\<lambda>s. stop_id s = st_stop_id (snd qr)) stops_rows
                        in if ms = [] then [unmatched qr] else map (joined qr) ms) st)"

text \<open>
  \<^verbatim>\<open>dropna(subset=["stop_sequence"])\<close> after \<^verbatim>\<open>to_numeric\<close>: the rows with a number, each
  with its number.
\<close>

definition numeric_rows :: "pylib \<Rightarrow> stop_time_row list \<Rightarrow> (rat \<times> stop_time_row) list" where
  "numeric_rows lib st =
     List.map_filter
       (\<lambda>r. case to_numeric lib (stop_sequence r) of Fin q \<Rightarrow> Some (q, r) | FNaN \<Rightarrow> None) st"

definition get_ordered_stops_for_trip ::
    "pylib \<Rightarrow> stop_time_row list \<Rightarrow> stop_row list \<Rightarrow> string \<Rightarrow> merged_row list" where
  "get_ordered_stops_for_trip lib stop_times_rows stops_rows tid =
     (let st = filter (\<lambda>r. st_trip_id r = tid) stop_times_rows
      in if st = [] then []
         else left_merge (sort_key fst (numeric_rows lib st)) stops_rows)"

text \<open>\<^verbatim>\<open>drop_duplicates(subset=[key], keep="first")\<close>.\<close>

fun drop_duplicates :: "('a \<Rightarrow> 'k) \<Rightarrow> 'a list \<Rightarrow> 'a list" where
  "drop_duplicates key [] = []"
| "drop_duplicates key (x # xs) = x # drop_duplicates key (filter (\<lambda>y. key y \<noteq> key x) xs)"

section \<open>One direction of one route\<close>

text \<open>
  \<^verbatim>\<open>sort_values("shape_pt_sequence")\<close>: ascending, equal numbers in table order, NaN last.
\<close>

definition fin_val :: "pyfloat \<Rightarrow> rat" where
  "fin_val x = (case x of Fin q \<Rightarrow> q | FNaN \<Rightarrow> 0)"

definition sort_by_sequence :: "shape_row list \<Rightarrow> shape_row list" where
  "sort_by_sequence ps =
     sort_key (\<lambda>p. fin_val (shape_pt_sequence p)) (filter (\<lambda>p. shape_pt_sequence p \<noteq> FNaN) ps)
     @ filter (\<lambda>p. shape_pt_sequence p = FNaN) ps"

definition shape_coords :: "shape_row list \<Rightarrow> string \<Rightarrow> (pyfloat \<times> pyfloat) list" where
  "shape_coords shapes_rows sid =
     map (\<lambda>p. (shape_pt_lon p, shape_pt_lat p))
       (sort_by_sequence (filter (\<lambda>p. shape_id p = sid) shapes_rows))"

text \<open>
  The body of \<^verbatim>\<open>for _, row in ordered.iterrows()\<close>: the name is
  \<^verbatim>\<open>str(row.get("stop_name", row.get("stop_id", "")))\<close>, where \<^verbatim>\<open>str\<close> of NaN is \<^verbatim>\<open>nan\<close>; a row
  whose longitude or latitude does not convert is passed over.
\<close>

definition stop_label :: "stop_row table \<Rightarrow> merged_row \<Rightarrow> string" where
  "stop_label stops_df row =
     (if safe_col stops_df ''stop_name''
      then (case m_stop_name row of None \<Rightarrow> ''nan'' | Some n \<Rightarrow> n)
      else m_stop_id row)"

definition stop_point :: "pylib \<Rightarrow> stop_row table \<Rightarrow> string \<Rightarrow> merged_row \<Rightarrow> feature option" where
  "stop_point lib stops_df stop_icon_color row =
     (case py_float lib (m_stop_lon row) of
        None \<Rightarrow> None
      | Some lon \<Rightarrow>
          (case py_float lib (m_stop_lat row) of
             None \<Rightarrow> None
           | Some lat \<Rightarrow> Some (Point (stop_label stops_df row) [(lon, lat)] (4 / 5) stop_icon_color)))"

text \<open>
  What one pass of \<^verbatim>\<open>for direction in directions\<close> adds to the folders: the value of
  \<^verbatim>\<open>dir_int\<close>, the line (if one was made) and the stop points. Every \<^verbatim>\<open>continue\<close> before
  the line is the direction skipped: no line and no points.
\<close>

record dir_out =
  out_dir_int :: int
  out_line :: "feature option"
  out_points :: "feature list"

definition skipped :: "int \<Rightarrow> dir_out" where
  "skipped d = \<lparr>out_dir_int = d, out_line = None, out_points = []\<rparr>"

text \<open>\<^verbatim>\<open>route_trips[route_trips["direction_id"] == direction]\<close>: NaN equals no number.\<close>

definition dir_trips_of :: "trip_row list \<Rightarrow> rat \<Rightarrow> trip_row list" where
  "dir_trips_of route_trips direction = filter (\<lambda>t. direction_id t = Fin direction) route_trips"

text \<open>\<^verbatim>\<open>try: dir_int = int(direction) except Exception: dir_int = 0\<close>.\<close>

definition dir_int_of :: "rat \<Rightarrow> int" where
  "dir_int_of direction = (case py_int (Fin direction) of Some n \<Rightarrow> n | None \<Rightarrow> 0)"

definition stop_points :: "pylib \<Rightarrow> stop_row table \<Rightarrow> string \<Rightarrow> merged_row list \<Rightarrow> feature list" where
  "stop_points lib stops_df stop_icon_color ordered =
     List.map_filter (stop_point lib stops_df stop_icon_color) (drop_duplicates m_stop_id ordered)"

definition process_direction ::
    "pylib \<Rightarrow> feed \<Rightarrow> string \<Rightarrow> string \<Rightarrow> string \<Rightarrow> trip_row list \<Rightarrow> rat \<Rightarrow> dir_out" where
  "process_direction lib fd route_name line_color stop_icon_color route_trips direction =
     (let dir_trips = dir_trips_of route_trips direction;
          dir_int = dir_int_of direction;
          dir_label = (if dir_int = 0 then ''FWD'' else ''BWD'')
      in case dir_trips of
           [] \<Rightarrow> skipped dir_int
         | rep_trip_row # others \<Rightarrow>
             (case trip_shape_id rep_trip_row of
                None \<Rightarrow> skipped dir_int
              | Some sid \<Rightarrow>
                  if filter (\<lambda>p. shape_id p = sid) (rows (shapes fd)) = [] then skipped dir_int
                  else
                    (let coords = shape_coords (rows (shapes fd)) sid
                     in if length coords < 2 then skipped dir_int
                        else
                          (let ls = LineString (route_name @ '' '' @ dir_label) coords 4 line_color
                           in case pick_representative_trip_id (rows (stop_times fd))
                                     (unique (map trip_id dir_trips)) of
                                None \<Rightarrow> \<lparr>out_dir_int = dir_int, out_line = Some ls, out_points = []\<rparr>
                              | Some rep_trip_id \<Rightarrow>
                                  (let ordered = get_ordered_stops_for_trip lib (rows (stop_times fd))
                                                   (rows (stops fd)) rep_trip_id
                                   in if ordered = []
                                      then \<lparr>out_dir_int = dir_int, out_line = Some ls, out_points = []\<rparr>
                                      else \<lparr>out_dir_int = dir_int, out_line = Some ls,
                                             out_points =
                                               stop_points lib (stops fd) stop_icon_color ordered\<rparr>)))))"

section \<open>One route\<close>

text \<open>
  \<^verbatim>\<open>sorted(route_trips["direction_id"].dropna().unique())\<close>: the directions of a route's
  trips that are numbers, each once, ascending.
\<close>

definition directions_of :: "trip_row list \<Rightarrow> rat list" where
  "directions_of route_trips =
     sort (unique (List.map_filter (\<lambda>t. case direction_id t of Fin q \<Rightarrow> Some q | FNaN \<Rightarrow> None)
                     route_trips))"

text \<open>\<^verbatim>\<open>trip_route_map[trip_route_map["route_id"] == route_id]\<close>.\<close>

definition route_trips_of :: "trip_row table \<Rightarrow> string \<Rightarrow> trip_row list" where
  "route_trips_of trips_df rid = filter (\<lambda>t. trip_route_id t = rid) (trip_route_map trips_df)"

definition route_outs :: "pylib \<Rightarrow> feed \<Rightarrow> route_row \<Rightarrow> dir_out list" where
  "route_outs lib fd route_row =
     (let route_name = get_route_name (routes fd) route_row;
          route_color_val = (if safe_col (routes fd) ''route_color''
                             then route_color route_row else PyNone);
          line_color = gtfs_color_to_kml route_color_val Color_blue;
          stop_color_val = (if safe_col (routes fd) ''route_text_color''
                            then route_text_color route_row else PyNone);
          stop_icon_color = gtfs_color_to_kml stop_color_val line_color;
          route_trips = route_trips_of (trips fd) (route_id route_row)
      in if route_trips = [] then []
         else map (process_direction lib fd route_name line_color stop_icon_color route_trips)
                (directions_of route_trips))"

definition lines_of :: "bool \<Rightarrow> dir_out list \<Rightarrow> node list" where
  "lines_of fwd outs =
     List.map_filter (\<lambda>out. if (out_dir_int out = 0) = fwd then map_option Feature (out_line out) else None)
       outs"

definition points_of :: "bool \<Rightarrow> dir_out list \<Rightarrow> node list" where
  "points_of fwd outs =
     concat (map (\<lambda>out. if (out_dir_int out = 0) = fwd then map Feature (out_points out) else [])
               outs)"

text \<open>The three folders a route gets, under the three group folders.\<close>

definition route_fwd_folder :: "pylib \<Rightarrow> feed \<Rightarrow> route_row \<Rightarrow> node" where
  "route_fwd_folder lib fd route_row =
     Folder (get_route_name (routes fd) route_row) (lines_of True (route_outs lib fd route_row))"

definition route_bwd_folder :: "pylib \<Rightarrow> feed \<Rightarrow> route_row \<Rightarrow> node" where
  "route_bwd_folder lib fd route_row =
     Folder (get_route_name (routes fd) route_row) (lines_of False (route_outs lib fd route_row))"

definition route_stops_folder :: "pylib \<Rightarrow> feed \<Rightarrow> route_row \<Rightarrow> node" where
  "route_stops_folder lib fd route_row =
     Folder (get_route_name (routes fd) route_row)
       [Folder ''Stops - FWD'' (points_of True (route_outs lib fd route_row)),
        Folder ''Stops - BWD'' (points_of False (route_outs lib fd route_row))]"

section \<open>The metro overlay\<close>

text \<open>
  What \<^verbatim>\<open>find\<close> gives for an element and its text: no element, an element without text
  (\<^verbatim>\<open>None\<close>), or an element with text. A placemark is its \<^verbatim>\<open>name\<close> child and, when it has
  a \<^verbatim>\<open>LineString\<close> below it, that line's \<^verbatim>\<open>coordinates\<close> child.
\<close>

datatype xml_text = NoElement | NoText | Text string

record placemark =
  pm_name :: xml_text
  pm_linestring :: "xml_text option"

definition placemark_name :: "xml_text \<Rightarrow> string" where
  "placemark_name name_el =
     (case name_el of Text t \<Rightarrow> if t \<noteq> [] then strip t else ''Metro Segment''
      | _ \<Rightarrow> ''Metro Segment'')"

text \<open>\<^verbatim>\<open>s.split(",")\<close> keeps empty fields; \<^verbatim>\<open>s.split()\<close> splits at whitespace and has none.\<close>

fun split_acc :: "(char \<Rightarrow> bool) \<Rightarrow> string \<Rightarrow> string \<Rightarrow> string list" where
  "split_acc sep cur [] = [rev cur]"
| "split_acc sep cur (c # cs) =
     (if sep c then rev cur # split_acc sep [] cs else split_acc sep (c # cur) cs)"

definition split_char :: "char \<Rightarrow> string \<Rightarrow> string list" where
  "split_char ch s = split_acc (\<lambda>c. c = ch) [] s"

definition py_split :: "string \<Rightarrow> string list" where
  "py_split s = filter (\<lambda>w. w \<noteq> []) (split_acc is_space [] s)"

definition replace_char :: "char \<Rightarrow> char \<Rightarrow> string \<Rightarrow> string" where
  "replace_char a b s = map (\<lambda>c. if c = a then b else c) s"

definition parse_part :: "pylib \<Rightarrow> string \<Rightarrow> (pyfloat \<times> pyfloat) option" where
  "parse_part lib part =
     (case split_char (CHR '','') part of
        p0 # p1 # rest \<Rightarrow>
          (case float_of_str lib p0 of
             None \<Rightarrow> None
           | Some lon \<Rightarrow>
               (case float_of_str lib p1 of None \<Rightarrow> None | Some lat \<Rightarrow> Some (lon, lat)))
      | _ \<Rightarrow> None)"

definition parse_coords :: "pylib \<Rightarrow> string \<Rightarrow> (pyfloat \<times> pyfloat) list" where
  "parse_coords lib t =
     List.map_filter (parse_part lib) (py_split (replace_char (CHR 0x0A) (CHR '' '') t))"

definition metro_segment :: "pylib \<Rightarrow> placemark \<Rightarrow> (string \<times> (pyfloat \<times> pyfloat) list) option" where
  "metro_segment lib pm =
     (let name = placemark_name (pm_name pm)
      in case pm_linestring pm of
           None \<Rightarrow> None
         | Some coords_el \<Rightarrow>
             (case coords_el of
                Text t \<Rightarrow>
                  if t = [] then None
                  else (let coords = parse_coords lib t
                        in if 2 \<le> length coords then Some (name, coords) else None)
              | _ \<Rightarrow> None))"

definition metro_lines :: "pylib \<Rightarrow> placemark list \<Rightarrow> (string \<times> (pyfloat \<times> pyfloat) list) list" where
  "metro_lines lib pms = List.map_filter (metro_segment lib) pms"

definition metro_color :: "string \<Rightarrow> string" where
  "metro_color name =
     (let name_lower = lower name
      in if contains ''red'' name_lower then Color_red
         else if contains ''orange'' name_lower then Color_rgb 255 165 0
         else Color_white)"

definition metro_fwd_folder :: "string \<times> (pyfloat \<times> pyfloat) list \<Rightarrow> node" where
  "metro_fwd_folder seg =
     Folder (fst seg) [Feature (LineString (fst seg) (snd seg) 5 (metro_color (fst seg)))]"

definition metro_bwd_folder :: "string \<times> (pyfloat \<times> pyfloat) list \<Rightarrow> node" where
  "metro_bwd_folder seg =
     Folder (fst seg) [Feature (LineString (fst seg) (rev (snd seg)) 5 (metro_color (fst seg)))]"

section \<open>The whole document and its bytes\<close>

definition build_document :: "pylib \<Rightarrow> feed \<Rightarrow> placemark list \<Rightarrow> node" where
  "build_document lib fd pms =
     Folder ''EV Routes (GTFS + Metro)''
       [Folder ''Routes - Forward Path''
          (map (route_fwd_folder lib fd) (rows (routes fd))
           @ map metro_fwd_folder (metro_lines lib pms)),
        Folder ''Routes - Backward Path''
          (map (route_bwd_folder lib fd) (rows (routes fd))
           @ map metro_bwd_folder (metro_lines lib pms)),
        Folder ''Routes - Stops'' (map (route_stops_folder lib fd) (rows (routes fd)))]"

text \<open>
  UTF-8 of a string of code points below 256, and what the function returns: the bytes
  themselves, or a zip container (deflate) of named entries.
\<close>

definition utf8_encode :: "string \<Rightarrow> string" where
  "utf8_encode s =
     concat (map (\<lambda>c. let n = (of_char c :: nat)
                       in if n < 128 then [c]
                          else [char_of (192 + n div 64), char_of (128 + n mod 64)]) s)"

datatype payload = Bytes string | ZipDeflated "(string \<times> string) list"

definition serialize :: "pylib \<Rightarrow> node \<Rightarrow> string \<Rightarrow> payload" where
  "serialize lib doc output_format =
     (let kml_content = kml_render lib doc
      in if output_format = ''kml'' then Bytes (utf8_encode kml_content)
         else ZipDeflated [(''doc.kml'', utf8_encode kml_content)])"

datatype error = RuntimeError string | ValueError string "string list"

definition required_shape_cols :: "string list" where
  "required_shape_cols = [''shape_id'', ''shape_pt_lat'', ''shape_pt_lon'', ''shape_pt_sequence'']"

text \<open>
  \<^verbatim>\<open>generate_kmz_file\<close> after the two downloads: the feed's five tables and the entries of
  the metro container, each with the placemarks of its document. The first entry whose
  lower-cased name ends in \<^verbatim>\<open>.kml\<close> is the one read.
\<close>

definition generate_kmz_file ::
    "pylib \<Rightarrow> string \<Rightarrow> string \<Rightarrow> string \<Rightarrow> feed \<Rightarrow> (string \<times> placemark list) list
       \<Rightarrow> error + payload" where
  "generate_kmz_file lib gtfs_url github_token output_format fd metro_entries =
     (if gtfs_url = [] then Inl (RuntimeError ''GTFS_URL is missing. Set it before running the script.'' )
      else if github_token = []
      then Inl (RuntimeError ''GITHUB_TOKEN is missing. Set it before running the script.'')
      else if filter (\<lambda>c. c \<notin> set (columns (shapes fd))) required_shape_cols \<noteq> []
      then Inl (ValueError ''shapes.txt missing columns: ''
                  (filter (\<lambda>c. c \<notin> set (columns (shapes fd))) required_shape_cols))
      else if ''stop_sequence'' \<notin> set (columns (stop_times fd))
      then Inl (ValueError ''stop_times.txt missing required column: stop_sequence'' [])
      else (case filter (\<lambda>e. suffix ''.kml'' (lower (fst e))) metro_entries of
              [] \<Rightarrow> Inl (RuntimeError ''No .kml file found inside Metro KMZ'')
            | e # others \<Rightarrow> Inr (serialize lib (build_document lib fd (snd e)) output_format)))"

section \<open>Notions the properties are stated with\<close>

text \<open>
  The stop identifiers a trip visits, in the order the join receives them: the trip's
  stop-time rows that have a numeric sequence number, ascending.
\<close>

definition ordered_visits :: "pylib \<Rightarrow> stop_time_row list \<Rightarrow> string \<Rightarrow> string list" where
  "ordered_visits lib stop_times_rows tid =
     map (\<lambda>qr. st_stop_id (snd qr))
       (sort_key fst (numeric_rows lib (filter (\<lambda>r. st_trip_id r = tid) stop_times_rows)))"







text \<open>
  A small instance of the library functions, for evaluating the model on examples:
  \<^verbatim>\<open>float\<close> and \<^verbatim>\<open>to_numeric\<close> on strings of decimal digits (as Python reads them), and a
  renderer that prints the folder and feature names.
\<close>

definition digits_value :: "string \<Rightarrow> rat option" where
  "digits_value s =
     (if s \<noteq> [] \<and> list_all (\<lambda>c. c \<in> set ''0123456789'') s
      then Some (of_nat (foldl (\<lambda>a c. 10 * a + (of_char c - 48)) 0 s)) else None)"

fun names_of :: "node \<Rightarrow> string" where
  "names_of (Folder n kids) = ''<'' @ n @ concat (map names_of kids) @ ''>''"
| "names_of (Feature (LineString n cs w c)) = ''[L:'' @ n @ '']''"
| "names_of (Feature (Point n cs sc c)) = ''[P:'' @ n @ '']''"

definition example_lib :: pylib where
  "example_lib =
     \<lparr>float_of_str = (\<lambda>s. map_option Fin (digits_value s)),
      to_numeric_str = (\<lambda>s. case digits_value s of Some q \<Rightarrow> Fin q | None \<Rightarrow> FNaN),
      kml_render = names_of\<rparr>"

definition example_stops :: "stop_row table" where
  "example_stops =
     \<lparr>columns = [''stop_id'', ''stop_name'', ''stop_lat'', ''stop_lon''],
      rows = [\<lparr>stop_id = ''A'', stop_name = Some ''Alpha'', stop_lon = Num (Fin 73), stop_lat = Num (Fin 33)\<rparr>,
              \<lparr>stop_id = ''B'', stop_name = Some ''Beta'', stop_lon = Str ''74'', stop_lat = Str ''34''\<rparr>,
              \<lparr>stop_id = ''C'', stop_name = Some ''Gamma'', stop_lon = Str ''east'', stop_lat = Num (Fin 35)\<rparr>]\<rparr>"

definition example_stop_times :: "stop_time_row table" where
  "example_stop_times =
     \<lparr>columns = [''trip_id'', ''stop_id'', ''stop_sequence''],
      rows = [\<lparr>st_trip_id = ''T1'', st_stop_id = ''A'', stop_sequence = Num (Fin 3)\<rparr>,
              \<lparr>st_trip_id = ''T1'', st_stop_id = ''B'', stop_sequence = Num (Fin 2)\<rparr>,
              \<lparr>st_trip_id = ''T1'', st_stop_id = ''A'', stop_sequence = Num (Fin 1)\<rparr>,
              \<lparr>st_trip_id = ''T1'', st_stop_id = ''X'', stop_sequence = Num (Fin 4)\<rparr>,
              \<lparr>st_trip_id = ''T1'', st_stop_id = ''C'', stop_sequence = Num (Fin 5)\<rparr>,
              \<lparr>st_trip_id = ''T2'', st_stop_id = ''B'', stop_sequence = Num (Fin 1)\<rparr>]\<rparr>"

definition example_routes :: "route_row table" where
  "example_routes =
     \<lparr>columns = [''route_id'', ''route_short_name'', ''route_color''],
      rows = [\<lparr>route_id = ''R1'', route_short_name = Str ''1'', route_long_name = PyNone,
               route_color = Str ''FF0000'', route_text_color = PyNone\<rparr>,
              \<lparr>route_id = ''R2'', route_short_name = Str ''2'', route_long_name = PyNone,
               route_color = Str ''00FF00'', route_text_color = PyNone\<rparr>]\<rparr>"

definition example_trips :: "trip_row table" where
  "example_trips =
     \<lparr>columns = [''route_id'', ''trip_id'', ''shape_id'', ''direction_id''],
      rows = [\<lparr>trip_id = ''T2'', trip_route_id = ''R1'', trip_shape_id = Some ''S1'', direction_id = Fin 0\<rparr>,
              \<lparr>trip_id = ''T1'', trip_route_id = ''R1'', trip_shape_id = Some ''S1'', direction_id = Fin 0\<rparr>,
              \<lparr>trip_id = ''T3'', trip_route_id = ''R1'', trip_shape_id = Some ''S3'', direction_id = Fin 1\<rparr>,
              \<lparr>trip_id = ''T5'', trip_route_id = ''R1'', trip_shape_id = Some ''S2'', direction_id = Fin 2\<rparr>,
              \<lparr>trip_id = ''T4'', trip_route_id = ''R2'', trip_shape_id = Some ''S1'', direction_id = FNaN\<rparr>]\<rparr>"

definition example_shapes :: "shape_row table" where
  "example_shapes =
     \<lparr>columns = [''shape_id'', ''shape_pt_lat'', ''shape_pt_lon'', ''shape_pt_sequence''],
      rows = [\<lparr>shape_id = ''S1'', shape_pt_lat = Fin 33, shape_pt_lon = Fin 73, shape_pt_sequence = Fin 2\<rparr>,
              \<lparr>shape_id = ''S1'', shape_pt_lat = Fin 32, shape_pt_lon = Fin 72, shape_pt_sequence = Fin 1\<rparr>,
              \<lparr>shape_id = ''S2'', shape_pt_lat = Fin 30, shape_pt_lon = Fin 70, shape_pt_sequence = Fin 1\<rparr>,
              \<lparr>shape_id = ''S1'', shape_pt_lat = Fin 34, shape_pt_lon = Fin 74, shape_pt_sequence = Fin 3\<rparr>,
              \<lparr>shape_id = ''S3'', shape_pt_lat = Fin 34, shape_pt_lon = Fin 74, shape_pt_sequence = Fin 1\<rparr>,
              \<lparr>shape_id = ''S3'', shape_pt_lat = Fin 33, shape_pt_lon = Fin 73, shape_pt_sequence = Fin 2\<rparr>]\<rparr>"

definition example_feed :: feed where
  "example_feed =
     \<lparr>routes = example_routes, trips = example_trips, shapes = example_shapes,
      stops = example_stops, stop_times = example_stop_times\<rparr>"

definition example_placemarks :: "placemark list" where
  "example_placemarks =
     [\<lparr>pm_name = Text ''Red Line'', pm_linestring = Some (Text ''1,2 3,4 5,6,0 7,8'')\<rparr>,
      \<lparr>pm_name = NoElement, pm_linestring = Some (Text ''1,2 x,4 5,6'')\<rparr>,
      \<lparr>pm_name = Text ''Orange Line'', pm_linestring = Some (Text ''1,2'')\<rparr>,
      \<lparr>pm_name = Text ''   '', pm_linestring = Some (Text ''9,9 8,8'')\<rparr>,
      \<lparr>pm_name = Text ''Depot'', pm_linestring = None\<rparr>]"

definition example_trips_no_dir :: "trip_row table" where
  "example_trips_no_dir = example_trips\<lparr>columns := [''route_id'', ''trip_id'', ''shape_id'']\<rparr>"


section \<open>Properties\<close>


subsection \<open>Lists without repetitions\<close>

lemma set_unique: "set (unique xs) = set xs"
  by (induction xs rule: unique.induct) auto

lemma distinct_unique: "distinct (unique xs)"
  by (induction xs rule: unique.induct) (auto simp: set_unique)

lemma map_key_drop_duplicates: "map key (drop_duplicates key xs) = unique (map key xs)"
  by (induction key xs rule: drop_duplicates.induct) (simp_all add: filter_map comp_def)

lemma takeWhile_filter_neq:
  "a \<noteq> x \<Longrightarrow> takeWhile (\<lambda>y. y \<noteq> x) (filter (\<lambda>y. y \<noteq> a) xs) = filter (\<lambda>y. y \<noteq> a) (takeWhile (\<lambda>y. y \<noteq> x) xs)"
proof (induction xs)
  case Nil then show ?case by simp
next
  case (Cons y xs)
  then show ?case by (cases "y = x"; cases "y = a") simp_all
qed

lemma unique_takeWhile:
  "takeWhile (\<lambda>y. y \<noteq> x) (unique xs) = unique (takeWhile (\<lambda>y. y \<noteq> x) xs)"
proof (induction xs rule: unique.induct)
  case 1 then show ?case by simp
next
  case (2 a xs)
  show ?case
  proof (cases "a = x")
    case True then show ?thesis by simp
  next
    case False
    with 2 show ?thesis
      by (simp add: takeWhile_filter_neq) 
  qed
qed

lemma unique_filter: "unique (filter P xs) = filter P (unique xs)"
proof (induction xs rule: unique.induct)
  case 1 then show ?case by simp
next
  case (2 x xs)
  show ?case
  proof (cases "P x")
    case True
    have "filter (\<lambda>y. y \<noteq> x) (filter P xs) = filter P (filter (\<lambda>y. y \<noteq> x) xs)"
      by (simp add: conj_commute)
    with True 2 show ?thesis by simp
  next
    case False
    have "filter P (filter (\<lambda>y. y \<noteq> x) xs) = filter P xs"
      using False by (auto intro: filter_cong)
    with False 2 show ?thesis by simp
  qed
qed

lemma unique_replicate_append:
  "unique (replicate (Suc k) a @ ys) = a # unique (filter (\<lambda>y. y \<noteq> a) ys)"
  by simp

lemma count_list_distinct: "distinct zs \<Longrightarrow> s \<in> set zs \<Longrightarrow> count_list zs s = 1"
  by (induction zs) (auto simp: count_list_0_iff)

lemma merged_ids:
  "\<exists>k. map m_stop_id (left_merge (qr # xs) stops_rows) =
     replicate (Suc k) (st_stop_id (snd qr)) @ map m_stop_id (left_merge xs stops_rows)"
proof -
  let ?ms = "filter (\<lambda>s. stop_id s = st_stop_id (snd qr)) stops_rows"
  show ?thesis
  proof (cases "?ms = []")
    case True
    then have "map m_stop_id (left_merge (qr # xs) stops_rows) =
        replicate (Suc 0) (st_stop_id (snd qr)) @ map m_stop_id (left_merge xs stops_rows)"
      by (simp add: left_merge_def unmatched_def)
    then show ?thesis by blast
  next
    case False
    then obtain k where k: "length ?ms = Suc k" by (cases ?ms) auto
    have "map m_stop_id (map (joined qr) ?ms) = replicate (length ?ms) (st_stop_id (snd qr))"
      by (simp add: map_replicate_const joined_def comp_def)
    with False k have "map m_stop_id (left_merge (qr # xs) stops_rows) =
        replicate (Suc k) (st_stop_id (snd qr)) @ map m_stop_id (left_merge xs stops_rows)"
      by (simp add: left_merge_def Let_def)
    then show ?thesis by blast
  qed
qed

lemma unique_merged_ids:
  "unique (map m_stop_id (left_merge xs stops_rows)) = unique (map (\<lambda>qr. st_stop_id (snd qr)) xs)"
proof (induction xs)
  case Nil
  then show ?case by (simp add: left_merge_def)
next
  case (Cons qr xs)
  obtain k where k: "map m_stop_id (left_merge (qr # xs) stops_rows) =
     replicate (Suc k) (st_stop_id (snd qr)) @ map m_stop_id (left_merge xs stops_rows)"
    using merged_ids by blast
  have "unique (map m_stop_id (left_merge (qr # xs) stops_rows)) =
      st_stop_id (snd qr) # filter (\<lambda>y. y \<noteq> st_stop_id (snd qr)) (unique (map m_stop_id (left_merge xs stops_rows)))"
    unfolding k unique_replicate_append by (simp only: unique_filter)
  also have "\<dots> = st_stop_id (snd qr) # filter (\<lambda>y. y \<noteq> st_stop_id (snd qr)) (unique (map (\<lambda>qr. st_stop_id (snd qr)) xs))"
    by (simp only: Cons.IH)
  also have "\<dots> = unique (map (\<lambda>qr. st_stop_id (snd qr)) (qr # xs))"
    by (simp add: unique_filter)
  finally show ?case .
qed

lemma ordered_ids:
  "map m_stop_id (drop_duplicates m_stop_id (get_ordered_stops_for_trip lib st stops_rows tid))
     = unique (ordered_visits lib st tid)"
  by (simp add: get_ordered_stops_for_trip_def Let_def map_key_drop_duplicates unique_merged_ids
      ordered_visits_def numeric_rows_def map_filter_simps)

subsection \<open>Stops visited more than once\<close>

text \<open>
  C8. When the ordered stop-times of the representative trip visit a stop identifier
  (once or several times), the stop sequence left by
  \<^verbatim>\<open>drop_duplicates(subset=["stop_id"], keep="first")\<close> holds that stop exactly once, and
  the stops before it are the distinct stops visited before its first visit: it stands
  at the position of its first occurrence.
\<close>

theorem repeated_stop_kept_once:
  assumes "s \<in> set (ordered_visits lib st tid)"
  shows "count_list (map m_stop_id
            (drop_duplicates m_stop_id (get_ordered_stops_for_trip lib st stops_rows tid))) s = 1
       \<and> takeWhile (\<lambda>x. x \<noteq> s) (map m_stop_id
            (drop_duplicates m_stop_id (get_ordered_stops_for_trip lib st stops_rows tid)))
         = unique (takeWhile (\<lambda>x. x \<noteq> s) (ordered_visits lib st tid))"
  using assms
  by (simp add: ordered_ids unique_takeWhile count_list_distinct distinct_unique set_unique)

theorem repeated_stop_kept_once_witness:
  "''A'' \<in> set (ordered_visits example_lib (rows example_stop_times) ''T1'')
   \<and> (count_list (map m_stop_id
            (drop_duplicates m_stop_id
               (get_ordered_stops_for_trip example_lib (rows example_stop_times)
                  (rows example_stops) ''T1''))) ''A'' = 1
       \<and> takeWhile (\<lambda>x. x \<noteq> ''A'') (map m_stop_id
            (drop_duplicates m_stop_id
               (get_ordered_stops_for_trip example_lib (rows example_stop_times)
                  (rows example_stops) ''T1'')))
         = unique (takeWhile (\<lambda>x. x \<noteq> ''A'')
             (ordered_visits example_lib (rows example_stop_times) ''T1'')))"
proof -
  have h: "''A'' \<in> set (ordered_visits example_lib (rows example_stop_times) ''T1'')"
    by code_simp
  from h repeated_stop_kept_once [OF h] show ?thesis
    by (rule conjI)
qed

subsection \<open>The representative trip\<close>











subsection \<open>Directions\<close>

lemma unique_all_same: "xs \<noteq> [] \<Longrightarrow> \<forall>x \<in> set xs. x = a \<Longrightarrow> unique xs = [a]"
proof (cases xs)
  case Nil then show "xs \<noteq> [] \<Longrightarrow> ?thesis" by simp
next
  case (Cons y ys)
  assume all: "\<forall>x \<in> set xs. x = a"
  with Cons have "filter (\<lambda>z. z \<noteq> y) ys = []" by (auto simp: filter_empty_conv)
  with Cons all show ?thesis by simp
qed

lemma trip_route_map_no_column:
  "\<not> safe_col trips_df ''direction_id'' \<Longrightarrow> t \<in> set (trip_route_map trips_df) \<Longrightarrow> direction_id t = Fin 0"
  by (auto simp: trip_route_map_def)

lemma directions_all_zero:
  assumes "rt \<noteq> []" and "\<forall>t \<in> set rt. direction_id t = Fin 0"
  shows "directions_of rt = [0]"
proof -
  let ?ds = "List.map_filter (\<lambda>t. case direction_id t of Fin q \<Rightarrow> Some q | FNaN \<Rightarrow> None) rt"
  have "?ds = map (\<lambda>t. 0) rt"
    using assms(2) by (induction rt) (simp_all add: map_filter_simps)
  then have "?ds \<noteq> []" "\<forall>x \<in> set ?ds. x = 0" using assms(1) by auto
  then have "unique ?ds = [0]" by (rule unique_all_same)
  then show ?thesis by (simp add: directions_of_def)
qed

lemma directions_all_nan:
  "\<forall>t \<in> set rt. direction_id t = FNaN \<Longrightarrow> directions_of rt = []"
proof -
  assume a: "\<forall>t \<in> set rt. direction_id t = FNaN"
  have "List.map_filter (\<lambda>t. case direction_id t of Fin q \<Rightarrow> Some q | FNaN \<Rightarrow> None) rt = []"
    using a by (induction rt) (simp_all add: map_filter_simps)
  then show ?thesis by (simp add: directions_of_def)
qed

text \<open>
  C1, as the code has it. When the trips table has no direction column, every trip of a
  route has direction 0: the forward group is all of the route's trips, 0 is the only
  direction processed and its \<^verbatim>\<open>dir_int\<close> is 0. When a trip's direction value is NaN, the
  trip is in no direction group, whatever the direction; a route whose trips all have
  NaN directions has no direction to process.
\<close>

theorem direction_missing_or_nan:
  fixes trips_df :: "trip_row table" and rid :: string
  defines "rt \<equiv> route_trips_of trips_df rid"
  shows "(\<not> safe_col trips_df ''direction_id'' \<longrightarrow>
            dir_trips_of rt 0 = rt \<and> dir_int_of 0 = 0 \<and> (rt \<noteq> [] \<longrightarrow> directions_of rt = [0]))
       \<and> (\<forall>t \<in> set rt. direction_id t = FNaN \<longrightarrow> (\<forall>d. t \<notin> set (dir_trips_of rt d)))
       \<and> ((\<forall>t \<in> set rt. direction_id t = FNaN) \<longrightarrow> directions_of rt = [])"
proof (intro conjI impI)
  assume nc: "\<not> safe_col trips_df ''direction_id''"
  then have z: "\<forall>t \<in> set rt. direction_id t = Fin 0"
    by (auto simp: rt_def route_trips_of_def dest: trip_route_map_no_column)
  then show "dir_trips_of rt 0 = rt" by (simp add: dir_trips_of_def)
  show "dir_int_of 0 = 0" by (simp add: dir_int_of_def py_int_def)
  show "directions_of rt = [0]" if "rt \<noteq> []" using that z by (rule directions_all_zero)
next
  show "\<forall>t \<in> set rt. direction_id t = FNaN \<longrightarrow> (\<forall>d. t \<notin> set (dir_trips_of rt d))"
    by (simp add: dir_trips_of_def)
next
  assume "\<forall>t \<in> set rt. direction_id t = FNaN"
  then show "directions_of rt = []" by (rule directions_all_nan)
qed

theorem direction_missing_or_nan_witness:
  "\<not> safe_col example_trips_no_dir ''direction_id''
   \<and> route_trips_of example_trips_no_dir ''R1'' \<noteq> []
   \<and> dir_trips_of (route_trips_of example_trips_no_dir ''R1'') 0
        = route_trips_of example_trips_no_dir ''R1''
   \<and> directions_of (route_trips_of example_trips_no_dir ''R1'') = [0]
   \<and> route_trips_of example_trips ''R2'' \<noteq> []
   \<and> \<not> (\<exists>t \<in> set (route_trips_of example_trips ''R2''). direction_id t \<noteq> FNaN)
   \<and> \<not> (\<exists>t \<in> set (route_trips_of example_trips ''R2'').
            t \<in> set (dir_trips_of (route_trips_of example_trips ''R2'') 0))
   \<and> directions_of (route_trips_of example_trips ''R2'') = []"
proof -
  have a: "\<not> safe_col example_trips_no_dir ''direction_id''" by code_simp
  have b: "route_trips_of example_trips_no_dir ''R1'' \<noteq> []" by code_simp
  have c: "\<forall>t \<in> set (route_trips_of example_trips ''R2''). direction_id t = FNaN" by code_simp
  have d: "route_trips_of example_trips ''R2'' \<noteq> []" by code_simp
  note t1 = direction_missing_or_nan [where trips_df = example_trips_no_dir and rid = "''R1''"]
  note t2 = direction_missing_or_nan [where trips_df = example_trips and rid = "''R2''"]
  from t1 a b have 1: "dir_trips_of (route_trips_of example_trips_no_dir ''R1'') 0
        = route_trips_of example_trips_no_dir ''R1''"
    and 2: "directions_of (route_trips_of example_trips_no_dir ''R1'') = [0]" by blast+
  from t2 c have 3: "\<not> (\<exists>t \<in> set (route_trips_of example_trips ''R2'').
            t \<in> set (dir_trips_of (route_trips_of example_trips ''R2'') 0))"
    and 4: "directions_of (route_trips_of example_trips ''R2'') = []" by blast+
  from c have 5: "\<not> (\<exists>t \<in> set (route_trips_of example_trips ''R2''). direction_id t \<noteq> FNaN)"
    by blast
  from a b 1 2 d 5 3 4 show ?thesis by blast
qed

text \<open>
  The claim as stated fails: route \<^verbatim>\<open>R2\<close> has one trip, whose direction is NaN and whose
  shape has three points. The trip is not in the forward group, the route has no
  direction to process, and nothing is emitted for it.
\<close>

theorem nan_direction_not_forward:
  "map trip_id (route_trips_of (trips example_feed) ''R2'') = [''T4'']
   \<and> map direction_id (route_trips_of (trips example_feed) ''R2'') = [FNaN]
   \<and> dir_trips_of (route_trips_of (trips example_feed) ''R2'') 0 = []
   \<and> directions_of (route_trips_of (trips example_feed) ''R2'') = []
   \<and> length (shape_coords (rows (shapes example_feed)) ''S1'') = 3
   \<and> route_outs example_lib example_feed (rows (routes example_feed) ! 1) = []"
  by code_simp

subsection \<open>Lines and stops of a direction\<close>









subsection \<open>Stops without a row in the stops table\<close>










lemma length_map_filter_conv: "length (List.map_filter f xs) = length (filter (\<lambda>x. f x \<noteq> None) xs)"
  by (simp add: List.map_filter_def)

lemma set_map_filter_conv: "set (List.map_filter f xs) = {y. \<exists>x \<in> set xs. f x = Some y}"
proof (induction xs)
  case Nil then show ?case by (simp add: map_filter_simps)
next
  case (Cons a xs)
  then show ?case by (cases "f a") (auto simp: map_filter_simps)
qed



subsection \<open>The bytes returned\<close>

text \<open>
  C5. On the same inputs, the packaged output is the unpackaged output wrapped: when the
  \<^verbatim>\<open>kml\<close> request fails, the \<^verbatim>\<open>kmz\<close> request fails with the same error; when it returns
  bytes, the \<^verbatim>\<open>kmz\<close> request returns a deflate container whose only entry is named
  \<^verbatim>\<open>doc.kml\<close> and holds exactly those bytes.
\<close>

theorem kmz_wraps_kml:
  "(case generate_kmz_file lib url tok ''kml'' fd metro of
      Inl err \<Rightarrow> generate_kmz_file lib url tok ''kmz'' fd metro = Inl err
    | Inr p \<Rightarrow>
        (\<exists>content. p = Bytes content
           \<and> generate_kmz_file lib url tok ''kmz'' fd metro
               = Inr (ZipDeflated [(''doc.kml'', content)])))"
  by (simp add: generate_kmz_file_def serialize_def Let_def split: list.splits)

theorem kmz_wraps_kml_witness:
  "generate_kmz_file example_lib ''u'' ''t'' ''kml'' example_feed [(''doc.kml'', [])]
     = Inr (Bytes (utf8_encode (names_of (build_document example_lib example_feed []))))
   \<and> generate_kmz_file example_lib ''u'' ''t'' ''kmz'' example_feed [(''doc.kml'', [])]
     = Inr (ZipDeflated
              [(''doc.kml'', utf8_encode (names_of (build_document example_lib example_feed [])))])"
proof -
  have a: "generate_kmz_file example_lib ''u'' ''t'' ''kml'' example_feed [(''doc.kml'', [])]
     = Inr (Bytes (utf8_encode (names_of (build_document example_lib example_feed []))))"
    by code_simp
  from kmz_wraps_kml [of example_lib "''u''" "''t''" example_feed "[(''doc.kml'', [])]"] a
  show ?thesis by simp
qed

subsection \<open>The metro overlay\<close>

text \<open>
  C3. A placemark without a \<^verbatim>\<open>name\<close> element, or whose name has no text, is named
  \<^verbatim>\<open>Metro Segment\<close>. A name of whitespace only is not: the text is tested before it is
  stripped, and the segment's name is the empty string.
\<close>

theorem blank_name_not_defaulted:
  "placemark_name NoElement = ''Metro Segment'' \<and> placemark_name NoText = ''Metro Segment''
   \<and> placemark_name (Text []) = ''Metro Segment'' \<and> placemark_name (Text ''   '') = []"
  by (simp add: placemark_name_def strip_def is_space_def)

lemma contains_sublist: "contains sub s = sublist sub s"
  by (induction s) (auto simp: sublist_Cons_right)

lemma metro_segment_len: "metro_segment lib pm = Some seg \<Longrightarrow> 2 \<le> length (snd seg)"
  by (auto simp: metro_segment_def Let_def split: option.splits xml_text.splits if_splits)

lemma metro_lines_len: "seg \<in> set (metro_lines lib pms) \<Longrightarrow> 2 \<le> length (snd seg)"
  by (auto simp: metro_lines_def set_map_filter_conv dest: metro_segment_len)

text \<open>
  C4. The forward group folder holds, after the routes' folders, one folder per retained
  segment with one line: the segment's name, its coordinates as parsed, width 5. The
  backward group folder holds the same with the coordinates reversed. The stops folder
  gets nothing. Every retained segment has at least 2 coordinates, and the colour of both
  lines is red when the lower-cased name contains \<^verbatim>\<open>red\<close>, otherwise RGB(255,165,0) when
  it contains \<^verbatim>\<open>orange\<close>, otherwise white.
\<close>

theorem metro_segment_twice:
  "\<exists>fwd bwd stp.
     build_document lib fd pms =
       Folder ''EV Routes (GTFS + Metro)''
         [Folder ''Routes - Forward Path'' fwd, Folder ''Routes - Backward Path'' bwd,
          Folder ''Routes - Stops'' stp]
     \<and> drop (length (rows (routes fd))) fwd =
         map (\<lambda>seg. Folder (fst seg) [Feature (LineString (fst seg) (snd seg) 5 (metro_color (fst seg)))])
           (metro_lines lib pms)
     \<and> drop (length (rows (routes fd))) bwd =
         map (\<lambda>seg. Folder (fst seg) [Feature (LineString (fst seg) (rev (snd seg)) 5 (metro_color (fst seg)))])
           (metro_lines lib pms)
     \<and> stp = map (route_stops_folder lib fd) (rows (routes fd))
     \<and> (\<forall>seg \<in> set (metro_lines lib pms). 2 \<le> length (snd seg))
     \<and> (\<forall>name. metro_color name =
           (if sublist ''red'' (lower name) then Color_rgb 255 0 0
            else if sublist ''orange'' (lower name) then Color_rgb 255 165 0
            else Color_rgb 255 255 255))"
proof -
  have c: "Color_red = Color_rgb 255 0 0" "Color_white = Color_rgb 255 255 255"
    by (simp_all add: Color_red_def Color_white_def Color_rgb_def fmt_02x_def hex_of.simps)
  show ?thesis
    by (simp add: build_document_def metro_fwd_folder_def metro_bwd_folder_def metro_lines_len
          metro_color_def contains_sublist c Let_def cong: map_cong)
qed

theorem metro_segment_twice_witness:
  "map fst (metro_lines example_lib example_placemarks) = [''Red Line'', ''Metro Segment'', []]
   \<and> (\<exists>fwd bwd stp.
     build_document example_lib example_feed example_placemarks =
       Folder ''EV Routes (GTFS + Metro)''
         [Folder ''Routes - Forward Path'' fwd, Folder ''Routes - Backward Path'' bwd,
          Folder ''Routes - Stops'' stp]
     \<and> drop (length (rows (routes example_feed))) fwd =
         map (\<lambda>seg. Folder (fst seg) [Feature (LineString (fst seg) (snd seg) 5 (metro_color (fst seg)))])
           (metro_lines example_lib example_placemarks)
     \<and> drop (length (rows (routes example_feed))) bwd =
         map (\<lambda>seg. Folder (fst seg) [Feature (LineString (fst seg) (rev (snd seg)) 5 (metro_color (fst seg)))])
           (metro_lines example_lib example_placemarks)
     \<and> stp = map (route_stops_folder example_lib example_feed) (rows (routes example_feed))
     \<and> (\<forall>seg \<in> set (metro_lines example_lib example_placemarks). 2 \<le> length (snd seg))
     \<and> (\<forall>name. metro_color name =
           (if sublist ''red'' (lower name) then Color_rgb 255 0 0
            else if sublist ''orange'' (lower name) then Color_rgb 255 165 0
            else Color_rgb 255 255 255)))"
proof -
  have a: "map fst (metro_lines example_lib example_placemarks) = [''Red Line'', ''Metro Segment'', []]"
    by code_simp
  from a metro_segment_twice [of example_lib example_feed example_placemarks] show ?thesis
    by (rule conjI)
qed

subsection \<open>The colour resolver\<close>











end
